theory Spec2Isabelle
  imports Main
begin

section \<open>The header \<open>ext/hallon/common.h\<close>\<close>

text \<open>
  The repository consists of one C header. It is embedded as its text: the lines of the
  file in order, each written as it stands in the source (leading blanks included). The
  bytes of the file are these lines separated by newline characters; the last line,
  \<open>#endif\<close>, is not followed by a newline.
\<close>

definition common_h_lines :: "string list" where
  "common_h_lines =
    [''#ifndef __HALLON__'',
     ''  #define __HALLON__'',
     ''  '',
     ''  #include <ruby.h>'',
     ''  #include <pthread.h>'',
     ''  '',
     ''  #ifdef HAVE_LIBSPOTIFY_API_H'',
     ''  #  include <libspotify/api.h>'',
     ''  #else'',
     ''  #  include <spotify/api.h>'',
     ''  #endif'',
     '''',
     ''  /*'',
     ''    Initializers for the other classes.'',
     ''  */'',
     ''  void Init_Session(VALUE);'',
     ''#endif'']"

definition newline :: char where
  "newline = CHR 0x0A"

fun join_lines :: "string list \<Rightarrow> string" where
  "join_lines [] = []"
| "join_lines [l] = l"
| "join_lines (l # ls) = l @ newline # join_lines ls"

definition common_h :: string where
  "common_h = join_lines common_h_lines"


section \<open>Lines of a source text\<close>

text \<open>
  Two ways of counting lines. \<open>count_newlines\<close> counts newline characters.
  \<open>split_lines\<close> cuts the text at every newline; characters after the last newline form a
  line of their own, which is how a compiler numbers the lines of a file.
\<close>

definition count_newlines :: "string \<Rightarrow> nat" where
  "count_newlines src = length (filter (\<lambda>c. c = newline) src)"

fun split_lines_from :: "string \<Rightarrow> string \<Rightarrow> string list" where
  "split_lines_from cur [] = (if cur = [] then [] else [rev cur])"
| "split_lines_from cur (c # cs) =
     (if c = newline then rev cur # split_lines_from [] cs
      else split_lines_from (c # cur) cs)"

definition split_lines :: "string \<Rightarrow> string list" where
  "split_lines src = split_lines_from [] src"


section \<open>A preprocessor for the directives the header uses\<close>

text \<open>
  The model covers the part of C preprocessing that the header and the units that include
  it exercise: block comments, the conditionals \<open>#ifndef\<close>, \<open>#ifdef\<close>, \<open>#else\<close>,
  \<open>#endif\<close>, object-like \<open>#define\<close>, \<open>#undef\<close>, \<open>#include\<close> and the macro replacement of
  text lines. The macro table maps a name to its replacement tokens. A file named in
  quotes by \<open>#include\<close> is opened when the file table has it, up to a nesting depth, and
  recorded as an event when the table does not have it; the system headers, named in
  angle brackets, are not part of the repository, so their inclusion is recorded as an
  event and no file is opened. Function-like macros are not covered: their definition is
  an unknown directive. String and character literals are not told apart from other
  tokens; the header has none.
\<close>

datatype pp_error =
    Unterminated_comment
  | Else_without_if
  | Else_after_else
  | Endif_without_if
  | Unterminated_conditional
  | Include_too_deep
  | Bad_directive string

subsection \<open>Comments\<close>

text \<open>A block comment is replaced by one space; a comment left open is an error.\<close>

fun strip_comments :: "bool \<Rightarrow> string \<Rightarrow> pp_error + string" where
  "strip_comments in_comment [] = (if in_comment then Inl Unterminated_comment else Inr [])"
| "strip_comments in_comment [c] = (if in_comment then Inl Unterminated_comment else Inr [c])"
| "strip_comments in_comment (a # b # cs) =
     (if in_comment then
        (if a = CHR ''*'' \<and> b = CHR ''/''
         then map_sum id ((#) (CHR '' '')) (strip_comments False cs)
         else strip_comments True (b # cs))
      else
        (if a = CHR ''/'' \<and> b = CHR ''*''
         then strip_comments True cs
         else map_sum id ((#) a) (strip_comments False (b # cs))))"

subsection \<open>Classifying lines\<close>

definition is_space :: "char \<Rightarrow> bool" where
  "is_space c = (c = CHR '' '' \<or> c = CHR 0x09)"

definition is_digit :: "char \<Rightarrow> bool" where
  "is_digit c = (let n = (of_char c :: nat) in 48 \<le> n \<and> n \<le> 57)"

definition is_ident_char :: "char \<Rightarrow> bool" where
  "is_ident_char c =
     (let n = (of_char c :: nat)
      in (65 \<le> n \<and> n \<le> 90) \<or> (97 \<le> n \<and> n \<le> 122) \<or> (48 \<le> n \<and> n \<le> 57) \<or> n = 95)"

definition trim_left :: "string \<Rightarrow> string" where
  "trim_left s = dropWhile is_space s"

definition trim_right :: "string \<Rightarrow> string" where
  "trim_right s = rev (dropWhile is_space (rev s))"

definition trim :: "string \<Rightarrow> string" where
  "trim s = trim_right (trim_left s)"

datatype include_target = System_header string | Local_header string

datatype pp_line =
    Ifndef string
  | Ifdef string
  | Else
  | Endif
  | Define string string
  | Undef string
  | Include include_target
  | Blank
  | Text string
  | Unknown string

fun parse_include :: "string \<Rightarrow> pp_line" where
  "parse_include [] = Unknown ''include''"
| "parse_include (c # cs) =
     (if c = CHR ''<'' \<and> cs \<noteq> [] \<and> last cs = CHR ''>'' then Include (System_header (butlast cs))
      else if c = CHR 0x22 \<and> cs \<noteq> [] \<and> last cs = CHR 0x22 then Include (Local_header (butlast cs))
      else Unknown (''include '' @ c # cs))"

text \<open>
  A macro name is an identifier: it does not start with a digit. A name directly
  followed by a parenthesis starts a function-like macro.
\<close>

definition macro_name :: "string \<Rightarrow> string" where
  "macro_name arg = (case arg of [] \<Rightarrow> [] | c # cs \<Rightarrow> if is_digit c then [] else takeWhile is_ident_char arg)"

definition parse_directive :: "string \<Rightarrow> pp_line" where
  "parse_directive s =
     (let d = takeWhile is_ident_char s;
          arg = trim (dropWhile is_ident_char s);
          m = macro_name arg;
          rest = dropWhile is_ident_char arg
      in if d = [] \<and> arg = [] then Blank
         else if d = ''ifndef'' \<and> m \<noteq> [] then Ifndef m
         else if d = ''ifdef'' \<and> m \<noteq> [] then Ifdef m
         else if d = ''define'' \<and> m \<noteq> [] \<and> take 1 rest \<noteq> ''('' then Define m (trim rest)
         else if d = ''undef'' \<and> m \<noteq> [] then Undef m
         else if d = ''include'' then parse_include arg
         else if d = ''else'' then Else
         else if d = ''endif'' then Endif
         else Unknown s)"

definition classify :: "string \<Rightarrow> pp_line" where
  "classify l =
     (case trim_left l of
        [] \<Rightarrow> Blank
      | c # r \<Rightarrow> if c = CHR ''#'' then parse_directive (trim_left r) else Text (trim_right (c # r)))"

definition pp_lines :: "string \<Rightarrow> pp_error + pp_line list" where
  "pp_lines src = map_sum id (\<lambda>t. map classify (split_lines t)) (strip_comments False src)"

subsection \<open>Tokens and macro replacement\<close>

datatype token = Ident string | Number string | Punct char

definition flush :: "string \<Rightarrow> token list" where
  "flush cur =
     (if cur = [] then []
      else if is_digit (last cur) then [Number (rev cur)]
      else [Ident (rev cur)])"

fun lex_from :: "string \<Rightarrow> string \<Rightarrow> token list" where
  "lex_from cur [] = flush cur"
| "lex_from cur (c # cs) =
     (if is_ident_char c then lex_from (c # cur) cs
      else flush cur @ (if is_space c then [] else [Punct c]) @ lex_from [] cs)"

definition lex :: "string \<Rightarrow> token list" where
  "lex s = lex_from [] s"

type_synonym macro_table = "(string \<times> token list) list"

definition without :: "string \<Rightarrow> macro_table \<Rightarrow> macro_table" where
  "without m tbl = filter (\<lambda>e. fst e \<noteq> m) tbl"

definition set_macro :: "string \<Rightarrow> token list \<Rightarrow> macro_table \<Rightarrow> macro_table" where
  "set_macro m body tbl = (m, body) # without m tbl"

lemma without_shorter:
  "map_of tbl x = Some body \<Longrightarrow> length (without x tbl) < length tbl"
  unfolding without_def
  by (rule length_filter_less [where x = "(x, body)"]) (auto dest: map_of_SomeD)

text \<open>
  An identifier that names a macro is replaced by the macro's tokens, which are scanned
  again; inside its own replacement a macro's name is left alone.
\<close>

function expand :: "macro_table \<Rightarrow> token list \<Rightarrow> token list" where
  "expand tbl [] = []"
| "expand tbl (Number n # ts) = Number n # expand tbl ts"
| "expand tbl (Punct c # ts) = Punct c # expand tbl ts"
| "expand tbl (Ident x # ts) =
     (case map_of tbl x of
        None \<Rightarrow> Ident x # expand tbl ts
      | Some body \<Rightarrow> expand (without x tbl) body @ expand tbl ts)"
  by pat_completeness auto
termination
  by (relation "measures [\<lambda>(tbl, ts). length tbl, \<lambda>(tbl, ts). length ts]")
     (auto simp: without_shorter)

subsection \<open>Function prototypes\<close>

record fun_decl =
  return_type :: "token list"
  name :: string
  params :: "token list list"

fun split_commas :: "token list \<Rightarrow> token list \<Rightarrow> token list list" where
  "split_commas cur [] = [rev cur]"
| "split_commas cur (t # ts) =
     (if t = Punct (CHR '','') then rev cur # split_commas [] ts
      else split_commas (t # cur) ts)"

text \<open>
  A prototype is a type, a name, a parenthesised parameter list and a semicolon:
  no body, no \<open>typedef\<close>. An empty list and \<open>(void)\<close> both declare no parameter.
\<close>

definition parameter_list :: "token list \<Rightarrow> token list list" where
  "parameter_list ts = (if ts = [] \<or> ts = [Ident ''void''] then [] else split_commas [] ts)"

definition parse_prototype :: "token list \<Rightarrow> fun_decl option" where
  "parse_prototype ts =
     (let hd_part = takeWhile (\<lambda>t. t \<noteq> Punct (CHR ''('')) ts;
          tl_part = dropWhile (\<lambda>t. t \<noteq> Punct (CHR ''('')) ts
      in case (rev hd_part, rev tl_part) of
           (Ident f # ty, Punct semi # Punct close # inner) \<Rightarrow>
             if semi = CHR '';'' \<and> close = CHR '')'' \<and> inner \<noteq> [] \<and> ty \<noteq> []
                \<and> Ident ''typedef'' \<notin> set ty \<and> Punct (CHR ''='') \<notin> set ty
             then Some \<lparr>return_type = rev ty, name = f,
                        params = parameter_list (tl (rev inner))\<rparr>
             else None
         | _ \<Rightarrow> None)"

subsection \<open>Running a file\<close>

datatype event = Included include_target | Declared fun_decl | Passed "token list"

record pp_state =
  macros :: macro_table
  emitted :: "event list"

definition is_defined :: "pp_state \<Rightarrow> string \<Rightarrow> bool" where
  "is_defined s m = (m \<in> set (map fst (macros s)))"

definition emit :: "event \<Rightarrow> pp_state \<Rightarrow> pp_state" where
  "emit e s = s\<lparr>emitted := emitted s @ [e]\<rparr>"

text \<open>A text line is macro-replaced under the table of the moment, then read.\<close>

definition text_event :: "macro_table \<Rightarrow> string \<Rightarrow> event" where
  "text_event tbl t =
     (let ts = expand tbl (lex t)
      in case parse_prototype ts of Some d \<Rightarrow> Declared d | None \<Rightarrow> Passed ts)"

text \<open>
  The stack holds one frame per open conditional: whether the group being read is live,
  and whether its \<open>#else\<close> has been seen. A frame is live only if the enclosing one is.
  Conditionals do not span files: an included file starts with an empty stack and must
  close what it opens. \<open>depth\<close> is the number of nested inclusions still allowed.
\<close>

fun live :: "(bool \<times> bool) list \<Rightarrow> bool" where
  "live [] = True"
| "live ((a, e) # up) = a"

definition closed :: "pp_error + ((bool \<times> bool) list \<times> pp_state) \<Rightarrow> pp_error + pp_state" where
  "closed r =
     (case r of
        Inl e \<Rightarrow> Inl e
      | Inr (stk, s) \<Rightarrow> if stk = [] then Inr s else Inl Unterminated_conditional)"

fun run_lines ::
  "nat \<Rightarrow> (string \<times> string) list \<Rightarrow> (bool \<times> bool) list \<Rightarrow> pp_state \<Rightarrow> pp_line list
     \<Rightarrow> pp_error + ((bool \<times> bool) list \<times> pp_state)" where
  "run_lines depth fs stk s [] = Inr (stk, s)"
| "run_lines depth fs stk s (Ifndef m # ls) =
     run_lines depth fs ((live stk \<and> \<not> is_defined s m, False) # stk) s ls"
| "run_lines depth fs stk s (Ifdef m # ls) =
     run_lines depth fs ((live stk \<and> is_defined s m, False) # stk) s ls"
| "run_lines depth fs stk s (Else # ls) =
     (case stk of
        [] \<Rightarrow> Inl Else_without_if
      | (a, e) # up \<Rightarrow>
          if e then Inl Else_after_else
          else run_lines depth fs ((live up \<and> \<not> a, True) # up) s ls)"
| "run_lines depth fs stk s (Endif # ls) =
     (case stk of [] \<Rightarrow> Inl Endif_without_if | f # up \<Rightarrow> run_lines depth fs up s ls)"
| "run_lines depth fs stk s (Define m b # ls) =
     run_lines depth fs stk
       (if live stk then s\<lparr>macros := set_macro m (lex b) (macros s)\<rparr> else s) ls"
| "run_lines depth fs stk s (Undef m # ls) =
     run_lines depth fs stk (if live stk then s\<lparr>macros := without m (macros s)\<rparr> else s) ls"
| "run_lines depth fs stk s (Include (System_header h) # ls) =
     run_lines depth fs stk (if live stk then emit (Included (System_header h)) s else s) ls"
| "run_lines depth fs stk s (Include (Local_header h) # ls) =
     (if live stk then
        (case map_of fs h of
           None \<Rightarrow> run_lines depth fs stk (emit (Included (Local_header h)) s) ls
         | Some src \<Rightarrow>
             (case depth of
                0 \<Rightarrow> Inl Include_too_deep
              | Suc k \<Rightarrow>
                  (case pp_lines src of
                     Inl e \<Rightarrow> Inl e
                   | Inr inner \<Rightarrow>
                       (case closed (run_lines k fs [] s inner) of
                          Inl e \<Rightarrow> Inl e
                        | Inr s' \<Rightarrow> run_lines depth fs stk s' ls))))
      else run_lines depth fs stk s ls)"
| "run_lines depth fs stk s (Blank # ls) = run_lines depth fs stk s ls"
| "run_lines depth fs stk s (Text t # ls) =
     run_lines depth fs stk (if live stk then emit (text_event (macros s) t) s else s) ls"
| "run_lines depth fs stk s (Unknown u # ls) =
     (if live stk then Inl (Bad_directive u) else run_lines depth fs stk s ls)"

definition include_file ::
  "nat \<Rightarrow> (string \<times> string) list \<Rightarrow> string \<Rightarrow> pp_state \<Rightarrow> pp_error + pp_state" where
  "include_file depth fs src s =
     (case pp_lines src of Inl e \<Rightarrow> Inl e | Inr ls \<Rightarrow> closed (run_lines depth fs [] s ls))"

text \<open>What including a file adds to the events recorded so far.\<close>

definition added ::
  "nat \<Rightarrow> (string \<times> string) list \<Rightarrow> string \<Rightarrow> pp_state \<Rightarrow> pp_error + event list" where
  "added depth fs src s =
     map_sum id (\<lambda>s'. drop (length (emitted s)) (emitted s')) (include_file depth fs src s)"

text \<open>Including the same file \<open>n\<close> times in a row; the first error stops the run.\<close>

fun include_times ::
  "nat \<Rightarrow> nat \<Rightarrow> (string \<times> string) list \<Rightarrow> string \<Rightarrow> pp_state \<Rightarrow> pp_error + pp_state" where
  "include_times 0 depth fs src s = Inr s"
| "include_times (Suc n) depth fs src s =
     (case include_file depth fs src s of
        Inl e \<Rightarrow> Inl e
      | Inr s' \<Rightarrow> include_times n depth fs src s')"

text \<open>
  Lines, and the files they may include, that hold no \<open>#undef\<close> of a macro.
\<close>

definition files_undef_free :: "string \<Rightarrow> (string \<times> string) list \<Rightarrow> bool" where
  "files_undef_free m fs =
     list_all (\<lambda>(h, src). case pp_lines src of Inl e \<Rightarrow> True | Inr ls \<Rightarrow> Undef m \<notin> set ls) fs"

definition no_undef :: "string \<Rightarrow> (string \<times> string) list \<Rightarrow> pp_line list \<Rightarrow> bool" where
  "no_undef m fs ls = (Undef m \<notin> set ls \<and> files_undef_free m fs)"

fun is_inclusion :: "event \<Rightarrow> bool" where
  "is_inclusion (Included t) = True"
| "is_inclusion e = False"

subsection \<open>Translation units that include the header\<close>

definition header_files :: "(string \<times> string) list" where
  "header_files = [(''common.h'', common_h)]"

definition unit_single :: string where
  \<open>unit_single = join_lines [''#include "common.h"'']\<close>

definition unit_undef_between :: string where
  \<open>unit_undef_between =
     join_lines [''#include "common.h"'', ''#undef __HALLON__'', ''#include "common.h"'']\<close>

subsection \<open>What a file contains\<close>

text \<open>
  These read the whole file, whatever the conditionals select: the prototypes it
  declares, the macros it defines, and the kind of each of its lines.
\<close>

fun prototype_of :: "pp_line \<Rightarrow> fun_decl option" where
  "prototype_of (Text t) = parse_prototype (lex t)"
| "prototype_of l = None"

definition prototypes :: "string \<Rightarrow> pp_error + fun_decl list" where
  "prototypes src = map_sum id (List.map_filter prototype_of) (pp_lines src)"

definition declared_functions :: "string \<Rightarrow> pp_error + string list" where
  "declared_functions src = map_sum id (map name) (prototypes src)"

fun macro_of :: "pp_line \<Rightarrow> string option" where
  "macro_of (Define m b) = Some m"
| "macro_of l = None"

definition defined_macros :: "string \<Rightarrow> pp_error + string list" where
  "defined_macros src = map_sum id (List.map_filter macro_of) (pp_lines src)"

datatype kind =
    Conditional
  | Macro_definition
  | Macro_removal
  | Inclusion
  | Empty_line
  | Prototype
  | Other_code
  | Other_directive

fun kind_of :: "pp_line \<Rightarrow> kind" where
  "kind_of (Ifndef m) = Conditional"
| "kind_of (Ifdef m) = Conditional"
| "kind_of Else = Conditional"
| "kind_of Endif = Conditional"
| "kind_of (Define m b) = Macro_definition"
| "kind_of (Undef m) = Macro_removal"
| "kind_of (Include t) = Inclusion"
| "kind_of Blank = Empty_line"
| "kind_of (Text t) = (if parse_prototype (lex t) = None then Other_code else Prototype)"
| "kind_of (Unknown u) = Other_directive"

definition content_kinds :: "string \<Rightarrow> pp_error + kind list" where
  "content_kinds src =
     map_sum id (\<lambda>ls. filter (\<lambda>k. k \<noteq> Empty_line) (map kind_of ls)) (pp_lines src)"


section \<open>Properties of the preprocessor\<close>

lemma closed_Inr: "closed r = Inr s \<longleftrightarrow> r = Inr ([], s)"
  by (auto simp: closed_def split: sum.splits if_splits)

lemma is_defined_set_macro:
  "is_defined (s\<lparr>macros := set_macro g b (macros s)\<rparr>) m \<longleftrightarrow> m = g \<or> is_defined s m"
  by (auto simp: is_defined_def set_macro_def without_def)

lemma is_defined_without:
  "is_defined (s\<lparr>macros := without g (macros s)\<rparr>) m \<longleftrightarrow> m \<noteq> g \<and> is_defined s m"
  by (auto simp: is_defined_def without_def)

lemma is_defined_emit: "is_defined (emit e s) m = is_defined s m"
  by (simp add: is_defined_def emit_def)

lemma is_defined_emitted_update: "is_defined (s\<lparr>emitted := evs\<rparr>) m = is_defined s m"
  by (simp add: is_defined_def)

lemma is_defined_after_define:
  "is_defined (s\<lparr>macros := set_macro g b (macros s), emitted := evs\<rparr>) m
     \<longleftrightarrow> m = g \<or> is_defined s m"
  by (auto simp: is_defined_def set_macro_def without_def)

lemma undefined_lookup:
  "\<not> is_defined s m \<Longrightarrow> m \<noteq> g \<Longrightarrow> map_of (set_macro g b (macros s)) m = None"
  by (auto simp: is_defined_def set_macro_def without_def map_of_eq_None_iff)

lemma text_event_no_inclusion: "is_inclusion (text_event tbl t) = False"
  by (simp add: text_event_def Let_def split: option.splits)

lemma files_undef_freeD:
  "files_undef_free m fs \<Longrightarrow> map_of fs h = Some src \<Longrightarrow> pp_lines src = Inr inner
     \<Longrightarrow> Undef m \<notin> set inner"
  by (auto simp: files_undef_free_def list_all_iff dest!: map_of_SomeD)

text \<open>Running lines never removes a recorded event.\<close>

lemma run_lines_appends:
  "run_lines depth fs stk s ls = Inr (stk', s') \<Longrightarrow> \<exists>evs. emitted s' = emitted s @ evs"
proof (induction depth fs stk s ls arbitrary: stk' s' rule: run_lines.induct)
  case (9 depth fs stk s h ls)
  show ?case
  proof (cases "live stk")
    case False
    with 9 show ?thesis by simp
  next
    case True
    show ?thesis
    proof (cases "map_of fs h")
      case None
      with 9 True show ?thesis by (fastforce simp: emit_def)
    next
      case (Some src)
      with "9.prems"(1) True obtain k inner t where
        d: "depth = Suc k" and p: "pp_lines src = Inr inner"
        and r1: "run_lines k fs [] s inner = Inr ([], t)"
        and r2: "run_lines depth fs stk t ls = Inr (stk', s')"
        by (auto simp: closed_Inr split: nat.splits sum.splits)
      from "9.IH"(2) [OF True Some d p r1] obtain e1 where "emitted t = emitted s @ e1" by blast
      moreover from r1 have "closed (run_lines k fs [] s inner) = Inr t"
        by (simp add: closed_Inr)
      from "9.IH"(3) [OF True Some d p this r2] obtain e2 where "emitted s' = emitted t @ e2"
        by blast
      ultimately show ?thesis by simp
    qed
  qed
qed (fastforce simp: emit_def split: if_splits list.splits prod.splits)+

text \<open>A macro stays defined across lines and files that do not undefine it.\<close>

lemma run_lines_keeps_defined:
  "run_lines depth fs stk s ls = Inr (stk', s') \<Longrightarrow> Undef m \<notin> set ls
     \<Longrightarrow> files_undef_free m fs \<Longrightarrow> is_defined s m \<Longrightarrow> is_defined s' m"
proof (induction depth fs stk s ls arbitrary: stk' s' rule: run_lines.induct)
  case (9 depth fs stk s h ls)
  show ?case
  proof (cases "live stk")
    case False
    with 9 show ?thesis by simp
  next
    case True
    show ?thesis
    proof (cases "map_of fs h")
      case None
      with 9 True show ?thesis by (simp add: is_defined_emit)
    next
      case (Some src)
      with "9.prems"(1) True obtain k inner t where
        d: "depth = Suc k" and p: "pp_lines src = Inr inner"
        and r1: "run_lines k fs [] s inner = Inr ([], t)"
        and r2: "run_lines depth fs stk t ls = Inr (stk', s')"
        by (auto simp: closed_Inr split: nat.splits sum.splits)
      have "Undef m \<notin> set inner"
        using files_undef_freeD [OF "9.prems"(3) Some p] .
      with "9.IH"(2) [OF True Some d p r1] "9.prems"(3,4) have "is_defined t m" by blast
      moreover from r1 have "closed (run_lines k fs [] s inner) = Inr t"
        by (simp add: closed_Inr)
      moreover from "9.prems"(2) have "Undef m \<notin> set ls" by simp
      ultimately show ?thesis
        using "9.IH"(3) [OF True Some d p _ r2] "9.prems"(3) by blast
    qed
  qed
qed (auto simp: is_defined_set_macro is_defined_without is_defined_emit
       split: if_splits list.splits prod.splits)


section \<open>The header, read and run\<close>

lemma common_h_bytes: "length common_h = 283"
  by (simp add: common_h_def common_h_lines_def)

lemma common_h_pp_lines:
  "pp_lines common_h =
     Inr [Ifndef ''__HALLON__'', Define ''__HALLON__'' [], Blank,
          Include (System_header ''ruby.h''),
          Include (System_header ''pthread.h''), Blank,
          Ifdef ''HAVE_LIBSPOTIFY_API_H'',
          Include (System_header ''libspotify/api.h''), Else,
          Include (System_header ''spotify/api.h''), Endif, Blank, Blank,
          Text ''void Init_Session(VALUE);'', Endif]"
  by code_simp

lemma init_session_tokens:
  "lex ''void Init_Session(VALUE);'' =
     [Ident ''void'', Ident ''Init_Session'', Punct (CHR ''(''), Ident ''VALUE'',
      Punct (CHR '')''), Punct (CHR '';'')]"
  by code_simp

lemma init_session_prototype:
  "parse_prototype (lex ''void Init_Session(VALUE);'') =
     Some \<lparr>return_type = [Ident ''void''], name = ''Init_Session'',
           params = [[Ident ''VALUE'']]\<rparr>"
  by code_simp

lemma lex_empty: "lex [] = []"
  by (simp add: lex_def flush_def)

text \<open>
  The header in closed form. The declaration is read under the table that holds the
  guard macro, defined six lines earlier.
\<close>

lemma include_common_h:
  "include_file depth fs common_h s =
     Inr (if is_defined s ''__HALLON__'' then s
          else s\<lparr>macros := set_macro ''__HALLON__'' [] (macros s),
                 emitted := emitted s @
                   [Included (System_header ''ruby.h''),
                    Included (System_header ''pthread.h''),
                    Included (System_header
                      (if is_defined s ''HAVE_LIBSPOTIFY_API_H''
                       then ''libspotify/api.h'' else ''spotify/api.h'')),
                    text_event (set_macro ''__HALLON__'' [] (macros s))
                      ''void Init_Session(VALUE);'']\<rparr>)"
  unfolding include_file_def common_h_pp_lines
  by (simp add: emit_def closed_def lex_empty is_defined_after_define)

lemma added_common_h:
  "added depth fs common_h s =
     Inr (if is_defined s ''__HALLON__'' then []
          else [Included (System_header ''ruby.h''),
                Included (System_header ''pthread.h''),
                Included (System_header
                  (if is_defined s ''HAVE_LIBSPOTIFY_API_H''
                   then ''libspotify/api.h'' else ''spotify/api.h'')),
                text_event (set_macro ''__HALLON__'' [] (macros s))
                  ''void Init_Session(VALUE);''])"
  unfolding added_def include_common_h by simp

text \<open>With none of its identifiers a macro, the declaration is emitted as written.\<close>

lemma declaration_as_written:
  assumes "\<not> is_defined s ''void''" and "\<not> is_defined s ''Init_Session''"
    and "\<not> is_defined s ''VALUE''"
  shows "text_event (set_macro ''__HALLON__'' [] (macros s)) ''void Init_Session(VALUE);'' =
           Declared \<lparr>return_type = [Ident ''void''], name = ''Init_Session'',
                     params = [[Ident ''VALUE'']]\<rparr>"
proof -
  have "expand (set_macro ''__HALLON__'' [] (macros s)) (lex ''void Init_Session(VALUE);'')
          = lex ''void Init_Session(VALUE);''"
    using assms unfolding init_session_tokens by (simp add: undefined_lookup)
  then show ?thesis
    by (simp add: text_event_def init_session_prototype)
qed

lemma prototypes_common_h:
  "prototypes common_h =
     Inr [\<lparr>return_type = [Ident ''void''], name = ''Init_Session'',
           params = [[Ident ''VALUE'']]\<rparr>]"
  unfolding prototypes_def common_h_pp_lines
  by (simp add: List.map_filter_simps init_session_prototype)


section \<open>The claims of the specification\<close>

text \<open>
  C1. The header declares exactly one function, \<open>Init_Session\<close>: the function
  declarations found in the file are \<open>Init_Session\<close> and no other.
\<close>

theorem declares_only_Init_Session:
  "declared_functions common_h = Inr [''Init_Session'']"
  unfolding declared_functions_def prototypes_common_h by simp

text \<open>
  C2. The libspotify header has a fallback path. When the guard macro is not yet defined,
  including the header succeeds, and among the events it adds \<open><libspotify/api.h>\<close>
  occurs once and \<open><spotify/api.h>\<close> not at all if \<open>HAVE_LIBSPOTIFY_API_H\<close> is defined,
  and the other way round if it is not: exactly one of the two, in every configuration.
\<close>

theorem libspotify_header_fallback:
  assumes "\<not> is_defined s ''__HALLON__''"
  shows "\<exists>evs. added depth fs common_h s = Inr evs
           \<and> count_list evs (Included (System_header ''libspotify/api.h''))
               = (if is_defined s ''HAVE_LIBSPOTIFY_API_H'' then 1 else 0)
           \<and> count_list evs (Included (System_header ''spotify/api.h''))
               = (if is_defined s ''HAVE_LIBSPOTIFY_API_H'' then 0 else 1)"
proof -
  have "text_event tbl t \<noteq> Included h" for tbl t h
    using text_event_no_inclusion [of tbl t] by (cases "text_event tbl t") auto
  with assms show ?thesis unfolding added_common_h by simp
qed

theorem libspotify_header_fallback_witness:
  "\<not> is_defined \<lparr>macros = [(''HAVE_LIBSPOTIFY_API_H'', [Number ''1''])], emitted = []\<rparr>
       ''__HALLON__''
   \<and> (\<exists>evs. added 200 [] common_h
               \<lparr>macros = [(''HAVE_LIBSPOTIFY_API_H'', [Number ''1''])], emitted = []\<rparr> = Inr evs
          \<and> count_list evs (Included (System_header ''libspotify/api.h'')) = 1
          \<and> count_list evs (Included (System_header ''spotify/api.h'')) = 0)"
  using libspotify_header_fallback
    [of "\<lparr>macros = [(''HAVE_LIBSPOTIFY_API_H'', [Number ''1''])], emitted = []\<rparr>" 200 "[]"]
  by (simp add: is_defined_def)

text \<open>
  C3, as the code has it. The file opens with \<open>#ifndef\<close> and \<open>#define\<close> of the same macro
  \<open>__HALLON__\<close>, ahead of every include and of the declaration, and closes with
  \<open>#endif\<close>. After any inclusion \<open>__HALLON__\<close> is defined. Including the header two or
  more times in a row gives what including it once gives. In a translation unit, a later
  inclusion adds nothing and changes nothing provided \<open>__HALLON__\<close> is still defined at
  that point; it is, whatever lines and files are read after the first inclusion, if none
  of them holds \<open>#undef __HALLON__\<close>.
\<close>

theorem guard_idempotent_while_defined:
  "map_sum id (take 2) (pp_lines common_h)
     = Inr [Ifndef ''__HALLON__'', Define ''__HALLON__'' []]
   \<and> map_sum id last (pp_lines common_h) = Inr Endif
   \<and> (\<exists>t. include_file depth fs common_h s = Inr t \<and> is_defined t ''__HALLON__'')
   \<and> include_times (Suc (Suc n)) depth fs common_h s = include_file depth fs common_h s
   \<and> (is_defined s2 ''__HALLON__'' \<longrightarrow> include_file depth fs common_h s2 = Inr s2)
   \<and> (include_file depth fs common_h s = Inr s1
        \<and> run_lines depth fs stk s1 ls = Inr (stk', s2)
        \<and> no_undef ''__HALLON__'' fs ls
       \<longrightarrow> include_file depth fs common_h s2 = Inr s2)"
proof -
  have after: "\<exists>t. include_file depth fs common_h s = Inr t \<and> is_defined t ''__HALLON__''" for s
    by (simp add: include_common_h is_defined_after_define)
  have unchanged: "include_file depth fs common_h t = Inr t" if "is_defined t ''__HALLON__''" for t
    using that by (simp add: include_common_h)
  have again: "include_times k depth fs common_h t = Inr t" if "is_defined t ''__HALLON__''" for k t
    using that by (induction k) (simp_all add: unchanged)
  have row: "include_times (Suc (Suc n)) depth fs common_h s = include_file depth fs common_h s"
  proof -
    from after obtain t where t: "include_file depth fs common_h s = Inr t"
      and d: "is_defined t ''__HALLON__''" by blast
    then show ?thesis by (simp add: unchanged again)
  qed
  have later: "include_file depth fs common_h s2 = Inr s2"
    if 1: "include_file depth fs common_h s = Inr s1"
      and 2: "run_lines depth fs stk s1 ls = Inr (stk', s2)"
      and 3: "no_undef ''__HALLON__'' fs ls"
  proof -
    from after [of s] 1 have "is_defined s1 ''__HALLON__''" by simp
    with 2 3 have "is_defined s2 ''__HALLON__''"
      unfolding no_undef_def by (blast intro: run_lines_keeps_defined)
    then show ?thesis by (rule unchanged)
  qed
  show ?thesis
    using after [of s] row unchanged [of s2] later by (simp add: common_h_pp_lines)
qed

theorem guard_idempotent_while_defined_witness:
  "include_file 200 header_files common_h \<lparr>macros = [], emitted = []\<rparr>
     = Inr \<lparr>macros = [(''__HALLON__'', [])],
            emitted = [Included (System_header ''ruby.h''),
                       Included (System_header ''pthread.h''),
                       Included (System_header ''spotify/api.h''),
                       Declared \<lparr>return_type = [Ident ''void''], name = ''Init_Session'',
                                 params = [[Ident ''VALUE'']]\<rparr>]\<rparr>
   \<and> run_lines 200 header_files []
        \<lparr>macros = [(''__HALLON__'', [])],
         emitted = [Included (System_header ''ruby.h''),
                    Included (System_header ''pthread.h''),
                    Included (System_header ''spotify/api.h''),
                    Declared \<lparr>return_type = [Ident ''void''], name = ''Init_Session'',
                              params = [[Ident ''VALUE'']]\<rparr>]\<rparr>
        [Define ''DEBUG'' ''1'', Include (Local_header ''common.h'')]
     = Inr ([], \<lparr>macros = [(''DEBUG'', [Number ''1'']), (''__HALLON__'', [])],
                  emitted = [Included (System_header ''ruby.h''),
                             Included (System_header ''pthread.h''),
                             Included (System_header ''spotify/api.h''),
                             Declared \<lparr>return_type = [Ident ''void''], name = ''Init_Session'',
                                       params = [[Ident ''VALUE'']]\<rparr>]\<rparr>)
   \<and> no_undef ''__HALLON__'' header_files
        [Define ''DEBUG'' ''1'', Include (Local_header ''common.h'')]
   \<and> is_defined \<lparr>macros = [(''DEBUG'', [Number ''1'']), (''__HALLON__'', [])],
                  emitted = [Included (System_header ''ruby.h''),
                             Included (System_header ''pthread.h''),
                             Included (System_header ''spotify/api.h''),
                             Declared \<lparr>return_type = [Ident ''void''], name = ''Init_Session'',
                                       params = [[Ident ''VALUE'']]\<rparr>]\<rparr> ''__HALLON__''
   \<and> include_file 200 header_files common_h
        \<lparr>macros = [(''DEBUG'', [Number ''1'']), (''__HALLON__'', [])],
         emitted = [Included (System_header ''ruby.h''),
                    Included (System_header ''pthread.h''),
                    Included (System_header ''spotify/api.h''),
                    Declared \<lparr>return_type = [Ident ''void''], name = ''Init_Session'',
                              params = [[Ident ''VALUE'']]\<rparr>]\<rparr>
     = Inr \<lparr>macros = [(''DEBUG'', [Number ''1'']), (''__HALLON__'', [])],
            emitted = [Included (System_header ''ruby.h''),
                       Included (System_header ''pthread.h''),
                       Included (System_header ''spotify/api.h''),
                       Declared \<lparr>return_type = [Ident ''void''], name = ''Init_Session'',
                                 params = [[Ident ''VALUE'']]\<rparr>]\<rparr>"
  (is "?first \<and> ?between \<and> ?kept \<and> ?still \<and> ?later")
proof -
  have 1: ?first by code_simp
  have 2: ?between by code_simp
  have 3: ?kept by code_simp
  have 4: ?still by code_simp
  from 1 2 3 4 show ?thesis
    using guard_idempotent_while_defined
      [where depth = 200 and fs = header_files
         and s = "\<lparr>macros = [], emitted = []\<rparr>"
         and ?s1.0 = "\<lparr>macros = [(''__HALLON__'', [])],
                 emitted = [Included (System_header ''ruby.h''),
                            Included (System_header ''pthread.h''),
                            Included (System_header ''spotify/api.h''),
                            Declared \<lparr>return_type = [Ident ''void''], name = ''Init_Session'',
                                      params = [[Ident ''VALUE'']]\<rparr>]\<rparr>"
         and stk = "[]" and stk' = "[]"
         and ls = "[Define ''DEBUG'' ''1'', Include (Local_header ''common.h'')]"
         and ?s2.0 = "\<lparr>macros = [(''DEBUG'', [Number ''1'']), (''__HALLON__'', [])],
                 emitted = [Included (System_header ''ruby.h''),
                            Included (System_header ''pthread.h''),
                            Included (System_header ''spotify/api.h''),
                            Declared \<lparr>return_type = [Ident ''void''], name = ''Init_Session'',
                                      params = [[Ident ''VALUE'']]\<rparr>]\<rparr>"]
    by blast
qed

text \<open>
  C3, as the specification states it, fails: a translation unit that undefines
  \<open>__HALLON__\<close> between two inclusions of the header gets every include and the
  declaration twice, eight events where the unit that includes it once gets four.
\<close>

theorem undef_between_inclusions_repeats:
  "map_sum id length
     (added 200 header_files unit_undef_between \<lparr>macros = [], emitted = []\<rparr>) = Inr 8
   \<and> map_sum id length
     (added 200 header_files unit_single \<lparr>macros = [], emitted = []\<rparr>) = Inr 4
   \<and> added 200 header_files unit_undef_between \<lparr>macros = [], emitted = []\<rparr>
       \<noteq> added 200 header_files unit_single \<lparr>macros = [], emitted = []\<rparr>"
  by code_simp

text \<open>
  C4. Whenever the guard macro is not yet defined, including the header succeeds and
  pulls in \<open><ruby.h>\<close> and then \<open><pthread.h>\<close>, whether or not
  \<open>HAVE_LIBSPOTIFY_API_H\<close> is defined.
\<close>

theorem ruby_and_pthread_included:
  assumes "\<not> is_defined s ''__HALLON__''"
  shows "\<exists>evs. added depth fs common_h s =
           Inr (Included (System_header ''ruby.h'')
                # Included (System_header ''pthread.h'') # evs)"
  using assms unfolding added_common_h by simp

theorem ruby_and_pthread_included_witness:
  "\<not> is_defined \<lparr>macros = [(''NDEBUG'', [])], emitted = []\<rparr> ''__HALLON__''
   \<and> (\<exists>evs. added 200 [] common_h \<lparr>macros = [(''NDEBUG'', [])], emitted = []\<rparr> =
          Inr (Included (System_header ''ruby.h'')
               # Included (System_header ''pthread.h'') # evs))"
  using ruby_and_pthread_included [of "\<lparr>macros = [(''NDEBUG'', [])], emitted = []\<rparr>" 200 "[]"]
  by (simp add: is_defined_def)

text \<open>
  C5. The file holds nothing but include directives, conditionals (the guard and the
  choice of the libspotify header), the definition of the guard macro and one function
  prototype. No line is other code (a type, an object, a function body) or another
  directive, and \<open>__HALLON__\<close> is the only macro the file defines.
\<close>

theorem only_includes_guard_and_prototype:
  "content_kinds common_h =
     Inr [Conditional, Macro_definition, Inclusion, Inclusion,
          Conditional, Inclusion, Conditional, Inclusion, Conditional,
          Prototype, Conditional]
   \<and> defined_macros common_h = Inr [''__HALLON__'']"
  unfolding content_kinds_def defined_macros_def common_h_pp_lines
  by (simp add: init_session_prototype)

text \<open>
  C6, as the code has it. The file has 17 lines: cutting its bytes at the newlines gives
  back the 17 lines of the source. It has 16 newline characters, because its last line,
  \<open>#endif\<close>, is not terminated by one.
\<close>

theorem common_h_line_count:
  "split_lines common_h = common_h_lines
   \<and> length (split_lines common_h) = 17
   \<and> count_newlines common_h = 16
   \<and> last (split_lines common_h) = ''#endif''"
  by code_simp

text \<open>C6, as the specification states it, fails: the file does not have 16 lines.\<close>

theorem common_h_not_16_lines:
  "length (split_lines common_h) \<noteq> 16"
  by code_simp

text \<open>
  C8. The declared signature of \<open>Init_Session\<close>: the return type is \<open>void\<close> and there is
  exactly one parameter, of type \<open>VALUE\<close>.
\<close>

theorem Init_Session_signature:
  "prototypes common_h =
     Inr [\<lparr>return_type = [Ident ''void''], name = ''Init_Session'',
           params = [[Ident ''VALUE'']]\<rparr>]
   \<and> map_sum id (map (\<lambda>d. length (params d))) (prototypes common_h) = Inr [1]"
  unfolding prototypes_common_h by simp

text \<open>
  C9, as the code has it. Preprocessing is a function of the state. For two runs that
  agree on whether \<open>__HALLON__\<close> and \<open>HAVE_LIBSPOTIFY_API_H\<close> are defined, whatever their
  other macros, earlier events, file tables and depths, the includes the header adds are
  the same; everything it adds is the same, declaration included, provided that in
  neither run one of the identifiers of the declaration, \<open>void\<close>, \<open>Init_Session\<close> or
  \<open>VALUE\<close>, is defined as a macro.
\<close>

theorem two_macros_decide_unless_declaration_replaced:
  assumes "is_defined s1 ''__HALLON__'' = is_defined s2 ''__HALLON__''"
    and "is_defined s1 ''HAVE_LIBSPOTIFY_API_H'' = is_defined s2 ''HAVE_LIBSPOTIFY_API_H''"
  shows "map_sum id (filter is_inclusion) (added depth1 fs1 common_h s1)
           = map_sum id (filter is_inclusion) (added depth2 fs2 common_h s2)
         \<and> (\<not> is_defined s1 ''void'' \<and> \<not> is_defined s1 ''Init_Session''
              \<and> \<not> is_defined s1 ''VALUE'' \<and> \<not> is_defined s2 ''void''
              \<and> \<not> is_defined s2 ''Init_Session'' \<and> \<not> is_defined s2 ''VALUE''
            \<longrightarrow> added depth1 fs1 common_h s1 = added depth2 fs2 common_h s2)"
  using assms unfolding added_common_h
  by (simp add: text_event_no_inclusion declaration_as_written)

theorem two_macros_decide_unless_declaration_replaced_witness:
  "is_defined \<lparr>macros = [(''NDEBUG'', [])], emitted = []\<rparr> ''__HALLON__''
     = is_defined \<lparr>macros = [(''RUBY_EXTERN'', [Ident ''extern'']), (''DEBUG'', [Number ''1''])],
                   emitted = [Included (System_header ''stdio.h'')]\<rparr> ''__HALLON__''
   \<and> is_defined \<lparr>macros = [(''NDEBUG'', [])], emitted = []\<rparr> ''HAVE_LIBSPOTIFY_API_H''
     = is_defined \<lparr>macros = [(''RUBY_EXTERN'', [Ident ''extern'']), (''DEBUG'', [Number ''1''])],
                   emitted = [Included (System_header ''stdio.h'')]\<rparr> ''HAVE_LIBSPOTIFY_API_H''
   \<and> added 200 [] common_h \<lparr>macros = [(''NDEBUG'', [])], emitted = []\<rparr>
     = added 7 header_files common_h
         \<lparr>macros = [(''RUBY_EXTERN'', [Ident ''extern'']), (''DEBUG'', [Number ''1''])],
          emitted = [Included (System_header ''stdio.h'')]\<rparr>"
  using two_macros_decide_unless_declaration_replaced
    [of "\<lparr>macros = [(''NDEBUG'', [])], emitted = []\<rparr>"
        "\<lparr>macros = [(''RUBY_EXTERN'', [Ident ''extern'']), (''DEBUG'', [Number ''1''])],
          emitted = [Included (System_header ''stdio.h'')]\<rparr>"
        200 "[]" 7 header_files]
  by (simp add: is_defined_def)

text \<open>
  C9, as the specification states it, fails: two runs that agree on \<open>__HALLON__\<close> and
  \<open>HAVE_LIBSPOTIFY_API_H\<close> (neither is defined) and differ on the macro \<open>VALUE\<close> get
  different declarations, \<open>void Init_Session(VALUE)\<close> in one and
  \<open>void Init_Session(int)\<close> in the other.
\<close>

theorem declaration_differs_when_VALUE_is_a_macro:
  "is_defined \<lparr>macros = [], emitted = []\<rparr> ''__HALLON__''
     = is_defined \<lparr>macros = [(''VALUE'', [Ident ''int''])], emitted = []\<rparr> ''__HALLON__''
   \<and> is_defined \<lparr>macros = [], emitted = []\<rparr> ''HAVE_LIBSPOTIFY_API_H''
     = is_defined \<lparr>macros = [(''VALUE'', [Ident ''int''])], emitted = []\<rparr>
         ''HAVE_LIBSPOTIFY_API_H''
   \<and> added 200 [] common_h \<lparr>macros = [], emitted = []\<rparr>
     = Inr [Included (System_header ''ruby.h''), Included (System_header ''pthread.h''),
            Included (System_header ''spotify/api.h''),
            Declared \<lparr>return_type = [Ident ''void''], name = ''Init_Session'',
                      params = [[Ident ''VALUE'']]\<rparr>]
   \<and> added 200 [] common_h \<lparr>macros = [(''VALUE'', [Ident ''int''])], emitted = []\<rparr>
     = Inr [Included (System_header ''ruby.h''), Included (System_header ''pthread.h''),
            Included (System_header ''spotify/api.h''),
            Declared \<lparr>return_type = [Ident ''void''], name = ''Init_Session'',
                      params = [[Ident ''int'']]\<rparr>]
   \<and> added 200 [] common_h \<lparr>macros = [], emitted = []\<rparr>
     \<noteq> added 200 [] common_h \<lparr>macros = [(''VALUE'', [Ident ''int''])], emitted = []\<rparr>"
  by code_simp

text \<open>
  C10. If \<open>__HALLON__\<close> is already defined, including the header succeeds, leaves the
  state as it was and adds no event: no include and no declaration.
\<close>

theorem guard_defined_contributes_nothing:
  assumes "is_defined s ''__HALLON__''"
  shows "include_file depth fs common_h s = Inr s \<and> added depth fs common_h s = Inr []"
  using assms by (simp add: include_common_h added_common_h)

theorem guard_defined_contributes_nothing_witness:
  "is_defined \<lparr>macros = [(''__HALLON__'', []), (''HAVE_LIBSPOTIFY_API_H'', [Number ''1''])],
                emitted = []\<rparr> ''__HALLON__''
   \<and> include_file 200 [] common_h
        \<lparr>macros = [(''__HALLON__'', []), (''HAVE_LIBSPOTIFY_API_H'', [Number ''1''])],
         emitted = []\<rparr>
       = Inr \<lparr>macros = [(''__HALLON__'', []), (''HAVE_LIBSPOTIFY_API_H'', [Number ''1''])],
              emitted = []\<rparr>
   \<and> added 200 [] common_h
        \<lparr>macros = [(''__HALLON__'', []), (''HAVE_LIBSPOTIFY_API_H'', [Number ''1''])],
         emitted = []\<rparr>
       = Inr []"
  using guard_defined_contributes_nothing
    [of "\<lparr>macros = [(''__HALLON__'', []), (''HAVE_LIBSPOTIFY_API_H'', [Number ''1''])],
          emitted = []\<rparr>" 200 "[]"]
  by (simp add: is_defined_def)

end
